theory Spec2Isabelle
  imports Main
begin

section \<open>The persisted configuration document (src/lib/config.js)\<close>

text \<open>
  The updater keeps one JSON document, \<^verbatim>\<open>~/.gemini-cli-updater/config.json\<close>.
  Timestamps are the integers of \<^verbatim>\<open>Date.now()\<close> (milliseconds since the epoch); a JSON
  \<^verbatim>\<open>null\<close> is \<open>None\<close>. A history entry is what \<^verbatim>\<open>addVersionHistory\<close> pushes.
\<close>

record version_entry =
  "from" :: string
  "to" :: string
  timestamp :: int
  success :: bool

text \<open>
  The \<^verbatim>\<open>settings\<close> object. A property that the stored object does not have
  (\<^verbatim>\<open>undefined\<close> when read) is \<open>None\<close>.
\<close>

record settings =
  updateCooldown :: "int option"
  maxVersionHistory :: "int option"
  enableLogging :: "bool option"
  autoUpdate :: "bool option"

text \<open>
  The document as the program holds it after \<^verbatim>\<open>readConfig\<close>: the four top-level keys
  are always there (the defaults supply them), each possibly \<^verbatim>\<open>null\<close>.
\<close>

record config =
  lastUpdateCheck :: "int option"
  lastUpdateTime :: "int option"
  versionHistory :: "version_entry list option"
  settings :: "settings option"

text \<open>
  The object that \<^verbatim>\<open>JSON.parse\<close> yields from the file, or that a caller hands to
  \<^verbatim>\<open>importConfig\<close>: each top-level key may be missing (outer \<open>None\<close>). Keys other than
  these four are never read by the program and are not modelled; a file holding JSON
  that is no object (\<^verbatim>\<open>null\<close>, a number) spreads to nothing and is the document with all
  four keys missing.
\<close>

record stored_doc =
  st_lastUpdateCheck :: "int option option"
  st_lastUpdateTime :: "int option option"
  st_versionHistory :: "version_entry list option option"
  st_settings :: "settings option option"

text \<open>
  The file on disk: missing, present but not readable as JSON (so that
  \<^verbatim>\<open>readFileSync\<close> or \<^verbatim>\<open>JSON.parse\<close> throws), or holding a document.
\<close>

datatype conf_file = Missing | Unparseable | Stored stored_doc

text \<open>
  What the program does to the outside world, in the order it does it: subprocesses
  (\<^verbatim>\<open>execSync\<close> with its command line), HTTPS requests (with the URL) and attempts to
  write the config file (with the document handed to \<^verbatim>\<open>writeConfig\<close>). Writes to the
  log file by \<^verbatim>\<open>Logger\<close> are not part of the model.
\<close>

datatype event = ExecSync string | HttpsGet string | WriteConfig config

text \<open>
  The state the operations run on: the config file, whether the file system accepts a
  write to it (\<^verbatim>\<open>writeFileSync\<close> and \<^verbatim>\<open>mkdirSync\<close> throw otherwise), and the trace of
  events so far.
\<close>

record sys =
  config_file :: conf_file
  writable :: bool
  trace :: "event list"

definition emit :: "event \<Rightarrow> sys \<Rightarrow> sys" where
  "emit e s = s\<lparr>trace := trace s @ [e]\<rparr>"

definition defaultSettings :: settings where
  "defaultSettings =
     \<lparr>updateCooldown = Some (60 * 60 * 1000),
      maxVersionHistory = Some 10,
      enableLogging = Some True,
      autoUpdate = Some True\<rparr>"

definition getDefaultConfig :: config where
  "getDefaultConfig =
     \<lparr>lastUpdateCheck = None,
      lastUpdateTime = None,
      versionHistory = Some [],
      settings = Some defaultSettings\<rparr>"

text \<open>One key of the object spread \<^verbatim>\<open>{ ...defaults, ...parsed }\<close>: a key that \<^verbatim>\<open>parsed\<close>
  has wins, whatever its value.\<close>

definition spread_key :: "'a \<Rightarrow> 'a option \<Rightarrow> 'a" where
  "spread_key d p = (case p of None \<Rightarrow> d | Some v \<Rightarrow> v)"

definition spread :: "config \<Rightarrow> stored_doc \<Rightarrow> config" where
  "spread d p =
     \<lparr>lastUpdateCheck = spread_key (lastUpdateCheck d) (st_lastUpdateCheck p),
      lastUpdateTime = spread_key (lastUpdateTime d) (st_lastUpdateTime p),
      versionHistory = spread_key (versionHistory d) (st_versionHistory p),
      settings = spread_key (settings d) (st_settings p)\<rparr>"

text \<open>\<^verbatim>\<open>JSON.stringify(config)\<close> followed by a later \<^verbatim>\<open>JSON.parse\<close>: all four keys are
  present in what was written.\<close>

definition stringify :: "config \<Rightarrow> stored_doc" where
  "stringify c =
     \<lparr>st_lastUpdateCheck = Some (lastUpdateCheck c),
      st_lastUpdateTime = Some (lastUpdateTime c),
      st_versionHistory = Some (versionHistory c),
      st_settings = Some (settings c)\<rparr>"

text \<open>\<^verbatim>\<open>readConfig\<close> (config.js 40-50) has no write in it; every exception is caught and
  answered with the defaults. It is a function of the state alone.\<close>

definition readConfig :: "sys \<Rightarrow> config" where
  "readConfig s =
     (case config_file s of
        Stored p \<Rightarrow> spread getDefaultConfig p
      | Unparseable \<Rightarrow> getDefaultConfig
      | Missing \<Rightarrow> getDefaultConfig)"

text \<open>\<^verbatim>\<open>writeConfig\<close> (config.js 52-58): a failed write is caught and only warned about.\<close>

definition writeConfig :: "config \<Rightarrow> sys \<Rightarrow> sys" where
  "writeConfig c s =
     (let s1 = emit (WriteConfig c) s
      in if writable s1 then s1\<lparr>config_file := Stored (stringify c)\<rparr> else s1)"

text \<open>\<^verbatim>\<open>ensureConfigExists\<close> (config.js 12-24), run by the constructor of \<^verbatim>\<open>Config\<close>. The
  directory is not modelled apart from the file: when it is missing so is the file, and
  creating it succeeds exactly when \<open>writable\<close> holds. Where nothing can be written, the
  caught failure (of \<^verbatim>\<open>mkdirSync\<close> or of \<^verbatim>\<open>writeFileSync\<close>) shows in the trace as the one
  attempted write and the state stays as it was.\<close>

definition ensureConfigExists :: "sys \<Rightarrow> sys" where
  "ensureConfigExists s =
     (if config_file s = Missing then writeConfig getDefaultConfig s else s)"

definition getLastUpdateCheck :: "sys \<Rightarrow> int option" where
  "getLastUpdateCheck s = lastUpdateCheck (readConfig s)"

definition setLastUpdateCheck :: "int \<Rightarrow> sys \<Rightarrow> sys" where
  "setLastUpdateCheck t s = writeConfig ((readConfig s)\<lparr>lastUpdateCheck := Some t\<rparr>) s"

definition getLastUpdateTime :: "sys \<Rightarrow> int option" where
  "getLastUpdateTime s = lastUpdateTime (readConfig s)"


text \<open>\<^verbatim>\<open>config.versionHistory || []\<close>: an array is truthy, \<^verbatim>\<open>null\<close> is not.\<close>

definition history_or_empty :: "config \<Rightarrow> version_entry list" where
  "history_or_empty c = (case versionHistory c of None \<Rightarrow> [] | Some h \<Rightarrow> h)"

definition getVersionHistory :: "sys \<Rightarrow> version_entry list" where
  "getVersionHistory s = history_or_empty (readConfig s)"

text \<open>\<^verbatim>\<open>x || d\<close> on a number that may be \<^verbatim>\<open>undefined\<close>: \<^verbatim>\<open>undefined\<close> and \<open>0\<close> are falsy.\<close>

definition num_or :: "int option \<Rightarrow> int \<Rightarrow> int" where
  "num_or x d = (case x of None \<Rightarrow> d | Some n \<Rightarrow> if n = 0 then d else n)"

text \<open>\<^verbatim>\<open>config.settings?.maxVersionHistory || 10\<close> (config.js 100).\<close>

definition maxHistory :: "config \<Rightarrow> int" where
  "maxHistory c =
     num_or (case settings c of None \<Rightarrow> None | Some st \<Rightarrow> maxVersionHistory st) 10"

text \<open>\<^verbatim>\<open>xs.slice(k)\<close> of JavaScript: a negative \<open>k\<close> counts from the end, and the start is
  clamped to the array.\<close>

definition slice_from :: "int \<Rightarrow> 'a list \<Rightarrow> 'a list" where
  "slice_from k xs =
     (let n = int (length xs);
          start = (if k < 0 then max (n + k) 0 else min k n)
      in drop (nat start) xs)"

text \<open>\<^verbatim>\<open>addVersionHistory\<close> (config.js 87-106); \<open>now\<close> is the \<^verbatim>\<open>Date.now()\<close> it reads.\<close>

definition addVersionHistory :: "string \<Rightarrow> string \<Rightarrow> int \<Rightarrow> sys \<Rightarrow> sys" where
  "addVersionHistory fromVersion toVersion now s =
     (let c = readConfig s;
          versionEntry = \<lparr>from = fromVersion, to = toVersion, timestamp = now, success = True\<rparr>;
          pushed = history_or_empty c @ [versionEntry];
          maxH = maxHistory c;
          kept = (if int (length pushed) > maxH then slice_from (- maxH) pushed else pushed)
      in writeConfig (c\<lparr>versionHistory := Some kept\<rparr>) s)"

text \<open>The history right after the \<^verbatim>\<open>push\<close> of \<^verbatim>\<open>addVersionHistory\<close>, before the cap is
  applied.\<close>

definition pushed_history :: "string \<Rightarrow> string \<Rightarrow> int \<Rightarrow> sys \<Rightarrow> version_entry list" where
  "pushed_history f t now s =
     getVersionHistory s @ [\<lparr>from = f, to = t, timestamp = now, success = True\<rparr>]"



text \<open>\<^verbatim>\<open>importConfig\<close> (config.js 154-167). The argument is \<open>None\<close> when it is \<^verbatim>\<open>null\<close> or not
  an object.\<close>

definition importConfig :: "stored_doc option \<Rightarrow> sys \<Rightarrow> bool \<times> sys" where
  "importConfig configData s =
     (case configData of
        Some d \<Rightarrow> (True, writeConfig (spread getDefaultConfig d) s)
      | None \<Rightarrow> (False, s))"

section \<open>Version strings\<close>

definition digit :: "char \<Rightarrow> bool" where
  "digit c = (c \<in> set ''0123456789'')"

definition letter :: "char \<Rightarrow> bool" where
  "letter c = (c \<in> set ''abcdefghijklmnopqrstuvwxyzABCDEFGHIJKLMNOPQRSTUVWXYZ'')"

subsection \<open>The version that the wrapped tool prints (\<^verbatim>\<open>getCurrentVersion\<close>, line 315)\<close>

text \<open>
  \<^verbatim>\<open>result.match(/(\d+\.\d+\.\d+)/)\<close>. At a fixed start each \<^verbatim>\<open>\d+\<close> has to take the whole
  run of digits in front of it (giving one back leaves a digit where the pattern wants
  a dot), so the match at a position is decided without backtracking; the regular
  expression engine tries the positions from the left and returns the first match.
\<close>

definition match_here :: "string \<Rightarrow> string option" where
  "match_here s =
     (let a = takeWhile digit s in
      if a = [] then None
      else (case dropWhile digit s of
              [] \<Rightarrow> None
            | c1 # r1 \<Rightarrow>
                if c1 \<noteq> CHR ''.'' then None
                else (let b = takeWhile digit r1 in
                      if b = [] then None
                      else (case dropWhile digit r1 of
                              [] \<Rightarrow> None
                            | c2 # r2 \<Rightarrow>
                                if c2 \<noteq> CHR ''.'' then None
                                else (let c = takeWhile digit r2 in
                                      if c = [] then None
                                      else Some (a @ ''.'' @ b @ ''.'' @ c))))))"

fun match_version :: "string \<Rightarrow> string option" where
  "match_version [] = None"
| "match_version (x # xs) =
     (case match_here (x # xs) of Some v \<Rightarrow> Some v | None \<Rightarrow> match_version xs)"

subsection \<open>Semantic-version ordering (the semver package)\<close>

text \<open>
  Modelled from the spec: \<^verbatim>\<open>semver.lt\<close> belongs to the \<^verbatim>\<open>semver\<close> package, which is not
  among the sources. The spec calls for "semantic-version ordering"; this is the
  precedence of Semantic Versioning 2.0.0: \<^verbatim>\<open>major.minor.patch\<close> compared as numbers, a
  version with a pre-release tag below the same version without one, pre-release
  identifiers compared left to right (numeric below alphanumeric, numbers by value,
  the others as strings, a shorter list below its extensions), build metadata ignored.
  A string that is not a version makes \<^verbatim>\<open>semver.lt\<close> throw a \<^verbatim>\<open>TypeError\<close>, which is \<open>None\<close>
  here. (The package also accepts a leading \<^verbatim>\<open>v\<close> and surrounding blanks and bounds
  lengths and numbers; that is outside this model.)
\<close>

datatype ident = Num nat | Alnum string

record semver =
  major :: nat
  minor :: nat
  patch :: nat
  prerelease :: "ident list"

definition digit_val :: "char \<Rightarrow> nat" where
  "digit_val c = of_char c - 48"

definition nat_of_digits :: "string \<Rightarrow> nat" where
  "nat_of_digits ds = fold (\<lambda>c n. 10 * n + digit_val c) ds 0"

text \<open>\<^verbatim>\<open>s.split(c)\<close>: the empty string gives one empty piece.\<close>

fun split_on :: "char \<Rightarrow> string \<Rightarrow> string list" where
  "split_on c [] = [[]]"
| "split_on c (x # xs) =
     (if x = c then [] # split_on c xs
      else (case split_on c xs of [] \<Rightarrow> [[x]] | y # ys \<Rightarrow> (x # y) # ys))"

definition numeric_ident :: "string \<Rightarrow> bool" where
  "numeric_ident s = (s \<noteq> [] \<and> list_all digit s \<and> (s = ''0'' \<or> hd s \<noteq> CHR ''0''))"

definition ident_char :: "char \<Rightarrow> bool" where
  "ident_char c = (digit c \<or> letter c \<or> c = CHR ''-'')"

definition build_ident :: "string \<Rightarrow> bool" where
  "build_ident s = (s \<noteq> [] \<and> list_all ident_char s)"

definition pre_ident :: "string \<Rightarrow> ident option" where
  "pre_ident s =
     (if numeric_ident s then Some (Num (nat_of_digits s))
      else if s \<noteq> [] \<and> list_all ident_char s \<and> \<not> list_all digit s then Some (Alnum s)
      else None)"

fun all_some :: "'a option list \<Rightarrow> 'a list option" where
  "all_some [] = Some []"
| "all_some (None # xs) = None"
| "all_some (Some x # xs) = (case all_some xs of None \<Rightarrow> None | Some ys \<Rightarrow> Some (x # ys))"

definition parse_semver :: "string \<Rightarrow> semver option" where
  "parse_semver v =
     (let main_pre = takeWhile (\<lambda>c. c \<noteq> CHR ''+'') v;
          build = dropWhile (\<lambda>c. c \<noteq> CHR ''+'') v;
          build_ok = (build = [] \<or> list_all build_ident (split_on (CHR ''.'') (tl build)));
          main = takeWhile (\<lambda>c. c \<noteq> CHR ''-'') main_pre;
          pre = dropWhile (\<lambda>c. c \<noteq> CHR ''-'') main_pre;
          pre_ids = (if pre = [] then Some []
                     else all_some (map pre_ident (split_on (CHR ''.'') (tl pre))))
      in case (split_on (CHR ''.'') main, pre_ids) of
           ([a, b, c], Some ids) \<Rightarrow>
             if build_ok \<and> numeric_ident a \<and> numeric_ident b \<and> numeric_ident c
             then Some \<lparr>major = nat_of_digits a, minor = nat_of_digits b,
                        patch = nat_of_digits c, prerelease = ids\<rparr>
             else None
         | _ \<Rightarrow> None)"

text \<open>Strings under \<^verbatim>\<open><\<close> of JavaScript (by code unit).\<close>

fun str_less :: "string \<Rightarrow> string \<Rightarrow> bool" where
  "str_less [] [] = False"
| "str_less [] (y # ys) = True"
| "str_less (x # xs) [] = False"
| "str_less (x # xs) (y # ys) =
     (if x = y then str_less xs ys else (of_char x :: nat) < of_char y)"

definition cmp_nat :: "nat \<Rightarrow> nat \<Rightarrow> int" where
  "cmp_nat a b = (if a = b then 0 else if a < b then -1 else 1)"

fun compareIdentifiers :: "ident \<Rightarrow> ident \<Rightarrow> int" where
  "compareIdentifiers (Num a) (Num b) = cmp_nat a b"
| "compareIdentifiers (Num a) (Alnum b) = -1"
| "compareIdentifiers (Alnum a) (Num b) = 1"
| "compareIdentifiers (Alnum a) (Alnum b) = (if a = b then 0 else if str_less a b then -1 else 1)"

fun pre_loop :: "ident list \<Rightarrow> ident list \<Rightarrow> int" where
  "pre_loop [] [] = 0"
| "pre_loop (a # as) [] = 1"
| "pre_loop [] (b # bs) = -1"
| "pre_loop (a # as) (b # bs) = (if a = b then pre_loop as bs else compareIdentifiers a b)"

definition comparePre :: "ident list \<Rightarrow> ident list \<Rightarrow> int" where
  "comparePre p q =
     (if p \<noteq> [] \<and> q = [] then -1
      else if p = [] \<and> q \<noteq> [] then 1
      else if p = [] \<and> q = [] then 0
      else pre_loop p q)"

definition compareMain :: "semver \<Rightarrow> semver \<Rightarrow> int" where
  "compareMain x y =
     (if cmp_nat (major x) (major y) \<noteq> 0 then cmp_nat (major x) (major y)
      else if cmp_nat (minor x) (minor y) \<noteq> 0 then cmp_nat (minor x) (minor y)
      else cmp_nat (patch x) (patch y))"

definition semver_compare :: "semver \<Rightarrow> semver \<Rightarrow> int" where
  "semver_compare x y =
     (if compareMain x y \<noteq> 0 then compareMain x y
      else comparePre (prerelease x) (prerelease y))"

text \<open>Modelled from the spec: \<^verbatim>\<open>semver.lt(a, b)\<close> of the \<^verbatim>\<open>semver\<close> package, \<open>a\<close> below \<open>b\<close> in
  the ordering above; \<open>None\<close> is the \<^verbatim>\<open>TypeError\<close> on a string that is no version.\<close>

definition semver_lt :: "string \<Rightarrow> string \<Rightarrow> bool option" where
  "semver_lt a b =
     (case (parse_semver a, parse_semver b) of
        (Some x, Some y) \<Rightarrow> Some (semver_compare x y < 0)
      | _ \<Rightarrow> None)"

section \<open>The updater (class \<^verbatim>\<open>Updater\<close>, src/scripts/uninstall.js from line 231)\<close>

text \<open>
  What the outside world answers during one operation. Every \<^verbatim>\<open>Date.now()\<close> is a reading
  of its own; a subprocess either fails (non-zero exit, time-out, command not found:
  \<^verbatim>\<open>execSync\<close> throws) or returns its output; the registry request ends in one of the three
  rejections of \<^verbatim>\<open>getLatestVersion\<close> or resolves with the \<^verbatim>\<open>version\<close> property of the parsed
  body, \<open>None\<close> when the body has no such property.
\<close>

datatype exec_result = ExecFailed | ExecOutput string

datatype resolver_error = FetchFailed | RequestTimeout | ParseFailed

datatype registry_result = Rejected resolver_error | Resolved "string option"

record world =
  clock_gate :: int
  version_exec :: exec_result
  registry :: registry_result
  clock_stamp :: int
  clock_entry :: int
  install_exec :: exec_result
  clock_update :: int
  verify_exec :: exec_result
  rollback_exec :: exec_result

text \<open>The errors that \<^verbatim>\<open>performUpdate\<close> and \<^verbatim>\<open>rollbackToPreviousVersion\<close> throw to their
  caller: \<^verbatim>\<open>Error('No previous version available for rollback')\<close>, the exception of a failed
  \<^verbatim>\<open>execSync\<close>, and \<^verbatim>\<open>Error('Update verification failed')\<close>.\<close>

datatype error = NoRollbackTarget | CommandFailed | UpdateVerificationFailed

record updater =
  packageName :: string
  commandName :: string
  updateCooldown :: int

text \<open>The constructor: the cooldown is set to one hour, and \<^verbatim>\<open>new Config()\<close> runs
  \<^verbatim>\<open>ensureConfigExists\<close>.\<close>

definition new_Updater :: "string \<Rightarrow> string \<Rightarrow> sys \<Rightarrow> updater \<times> sys" where
  "new_Updater pkg cmd s =
     (\<lparr>packageName = pkg, commandName = cmd, updateCooldown = 60 * 60 * 1000\<rparr>,
      ensureConfigExists s)"

text \<open>\<^verbatim>\<open>isWithinCooldown\<close> (lines 353-358), with \<open>now\<close> the \<^verbatim>\<open>Date.now()\<close> it reads: \<^verbatim>\<open>!lastCheck\<close> holds for \<^verbatim>\<open>null\<close> and for \<open>0\<close>.\<close>

definition isWithinCooldown :: "updater \<Rightarrow> int \<Rightarrow> sys \<Rightarrow> bool" where
  "isWithinCooldown u now s =
     (case getLastUpdateCheck s of
        None \<Rightarrow> False
      | Some lastCheck \<Rightarrow> if lastCheck = 0 then False else now - lastCheck < updateCooldown u)"

definition version_command :: "updater \<Rightarrow> string" where
  "version_command u = commandName u @ '' --version''"

definition registry_url :: "updater \<Rightarrow> string" where
  "registry_url u = ''https://registry.npmjs.org/'' @ packageName u @ ''/latest''"


definition pinned_install_command :: "updater \<Rightarrow> string \<Rightarrow> string" where
  "pinned_install_command u v = ''npm install -g '' @ packageName u @ ''@'' @ v"

text \<open>\<^verbatim>\<open>getCurrentVersion\<close> (lines 305-322): never throws; a failed command gives \<^verbatim>\<open>null\<close>.\<close>

definition version_of :: "exec_result \<Rightarrow> string option" where
  "version_of r = (case r of ExecFailed \<Rightarrow> None | ExecOutput out \<Rightarrow> match_version out)"

definition getCurrentVersion :: "updater \<Rightarrow> exec_result \<Rightarrow> sys \<Rightarrow> string option \<times> sys" where
  "getCurrentVersion u r s = (version_of r, emit (ExecSync (version_command u)) s)"

text \<open>\<^verbatim>\<open>getLatestVersion\<close> (lines 324-351): the request is sent; how it ends is the world's
  answer.\<close>

definition getLatestVersion :: "updater \<Rightarrow> registry_result \<Rightarrow> sys \<Rightarrow> registry_result \<times> sys" where
  "getLatestVersion u r s = (r, emit (HttpsGet (registry_url u)) s)"

text \<open>Lines 253-271 of \<^verbatim>\<open>checkForUpdate\<close>, once both promises have resolved. \<^verbatim>\<open>semver.lt\<close>
  throws on \<^verbatim>\<open>undefined\<close> as on any other non-version, and the exception lands in the
  \<^verbatim>\<open>catch\<close>, which returns \<^verbatim>\<open>false\<close>.\<close>

definition checkResolved ::
  "world \<Rightarrow> string option \<Rightarrow> string option \<Rightarrow> sys \<Rightarrow> bool \<times> sys" where
  "checkResolved w currentVersion latestVersion s =
     (case currentVersion of
        None \<Rightarrow> (True, s)
      | Some cur \<Rightarrow>
          (case latestVersion of
             None \<Rightarrow> (False, s)
           | Some latest \<Rightarrow>
               (case semver_lt cur latest of
                  None \<Rightarrow> (False, s)
                | Some needsUpdate \<Rightarrow>
                    (let s1 = setLastUpdateCheck (clock_stamp w) s;
                         s2 = (if needsUpdate
                               then addVersionHistory cur latest (clock_entry w) s1
                               else s1)
                     in (needsUpdate, s2)))))"

text \<open>\<^verbatim>\<open>checkForUpdate\<close> (lines 240-276). \<^verbatim>\<open>Promise.all\<close> is handed both promises: the
  version command has run and the request has been sent before either result is looked
  at, and a rejected request rejects the whole, whatever the current version is.\<close>

definition checkForUpdate :: "updater \<Rightarrow> world \<Rightarrow> sys \<Rightarrow> bool \<times> sys" where
  "checkForUpdate u w s =
     (if isWithinCooldown u (clock_gate w) s then (False, s)
      else (let (currentVersion, s1) = getCurrentVersion u (version_exec w) s;
                (latest, s2) = getLatestVersion u (registry w) s1
            in case latest of
                 Rejected e \<Rightarrow> (False, s2)
               | Resolved latestVersion \<Rightarrow> checkResolved w currentVersion latestVersion s2))"


text \<open>\<^verbatim>\<open>rollbackToPreviousVersion\<close> (lines 360-381).\<close>

definition rollbackToPreviousVersion :: "updater \<Rightarrow> world \<Rightarrow> sys \<Rightarrow> (error + bool) \<times> sys" where
  "rollbackToPreviousVersion u w s =
     (let history = getVersionHistory s
      in if length history < 2 then (Inl NoRollbackTarget, s)
         else (let previousVersion = history ! (length history - 2);
                   s1 = emit (ExecSync (pinned_install_command u (from previousVersion))) s
               in case rollback_exec w of
                    ExecFailed \<Rightarrow> (Inl CommandFailed, s1)
                  | ExecOutput out \<Rightarrow> (Inr True, s1)))"



text \<open>The events that are attempts to write the config file.\<close>

fun is_write :: "event \<Rightarrow> bool" where
  "is_write (WriteConfig c) = True"
| "is_write (ExecSync c) = False"
| "is_write (HttpsGet url) = False"

section \<open>Concrete inputs\<close>

text \<open>The updater as the command-line entry builds it, a stored document, and the answers
  of the world, for the evaluations below.\<close>

definition ex_updater :: updater where
  "ex_updater = \<lparr>packageName = ''@google/gemini-cli'', commandName = ''gemini'',
                  updateCooldown = 60 * 60 * 1000\<rparr>"

definition ex_entry :: "string \<Rightarrow> string \<Rightarrow> version_entry" where
  "ex_entry a b = \<lparr>from = a, to = b, timestamp = 1690000000000, success = True\<rparr>"

definition ex_sys :: "int option \<Rightarrow> version_entry list \<Rightarrow> settings \<Rightarrow> sys" where
  "ex_sys lastCheck history st =
     \<lparr>config_file = Stored \<lparr>st_lastUpdateCheck = Some lastCheck,
                              st_lastUpdateTime = Some None,
                              st_versionHistory = Some (Some history),
                              st_settings = Some (Some st)\<rparr>,
      writable = True,
      trace = []\<rparr>"

definition ex_world :: "int \<Rightarrow> exec_result \<Rightarrow> registry_result \<Rightarrow> world" where
  "ex_world now cur latest =
     \<lparr>clock_gate = now, version_exec = cur, registry = latest,
      clock_stamp = now + 800, clock_entry = now + 801,
      install_exec = ExecOutput ''changed 1 package'', clock_update = now + 9000,
      verify_exec = ExecOutput ''0.1.9'', rollback_exec = ExecOutput ''changed 1 package''\<rparr>"

text \<open>A config file that cannot be parsed, and a first run with no file yet.\<close>

definition broken_sys :: sys where
  "broken_sys = \<lparr>config_file = Unparseable, writable = True, trace = []\<rparr>"

definition fresh_sys :: sys where
  "fresh_sys = \<lparr>config_file = Missing, writable = True, trace = []\<rparr>"

section \<open>Properties\<close>

subsection \<open>Reading back what was written\<close>

lemma spread_stringify: "spread d (stringify c) = c"
  by (simp add: spread_def stringify_def spread_key_def)


lemma writable_writeConfig: "writable (writeConfig c s) = writable s"
  by (simp add: writeConfig_def emit_def Let_def)

lemma config_file_writeConfig:
  "config_file (writeConfig c s) = (if writable s then Stored (stringify c) else config_file s)"
  by (simp add: writeConfig_def emit_def Let_def)

lemma readConfig_cong: "config_file s = config_file s' \<Longrightarrow> readConfig s = readConfig s'"
  by (simp add: readConfig_def)

lemma readConfig_writeConfig: "writable s \<Longrightarrow> readConfig (writeConfig c s) = c"
  by (simp add: readConfig_def config_file_writeConfig spread_stringify)

lemma readConfig_emit: "readConfig (emit e s) = readConfig s"
  by (simp add: readConfig_def emit_def)

lemma writable_emit: "writable (emit e s) = writable s"
  by (simp add: emit_def)


lemma trace_emit: "trace (emit e s) = trace s @ [e]"
  by (simp add: emit_def)

lemma getLastUpdateCheck_setLastUpdateCheck:
  "writable s \<Longrightarrow> getLastUpdateCheck (setLastUpdateCheck t s) = Some t"
  by (simp add: getLastUpdateCheck_def setLastUpdateCheck_def readConfig_writeConfig)


lemma readConfig_setLastUpdateCheck:
  "writable s \<Longrightarrow> readConfig (setLastUpdateCheck t s) = (readConfig s)\<lparr>lastUpdateCheck := Some t\<rparr>"
  by (simp add: setLastUpdateCheck_def readConfig_writeConfig)

lemma writable_setLastUpdateCheck: "writable (setLastUpdateCheck t s) = writable s"
  by (simp add: setLastUpdateCheck_def writable_writeConfig)


lemma slice_from_tail:
  assumes "0 < m" and "m < int (length xs)"
  shows "slice_from (- m) xs = drop (length xs - nat m) xs"
proof -
  have "nat (int (length xs) - m) = length xs - nat m"
    using assms by linarith
  then show ?thesis
    using assms by (simp add: slice_from_def Let_def max_def)
qed

lemma maxHistory_nonzero: "maxHistory c \<noteq> 0"
  by (simp add: maxHistory_def num_or_def split: option.splits)

lemma readConfig_addVersionHistory:
  assumes "writable s" and "0 \<le> maxHistory (readConfig s)"
  shows "readConfig (addVersionHistory f t now s) =
           (readConfig s)\<lparr>versionHistory :=
              Some (drop (length (pushed_history f t now s) - nat (maxHistory (readConfig s)))
                      (pushed_history f t now s))\<rparr>"
proof -
  let ?p = "pushed_history f t now s"
  let ?m = "maxHistory (readConfig s)"
  have pos: "0 < ?m"
    using assms(2) maxHistory_nonzero [of "readConfig s"] by linarith
  have "(if int (length ?p) > ?m then slice_from (- ?m) ?p else ?p) = drop (length ?p - nat ?m) ?p"
  proof (cases "int (length ?p) > ?m")
    case True
    then show ?thesis
      using pos by (simp add: slice_from_tail)
  next
    case False
    then have "length ?p - nat ?m = 0"
      by linarith
    with False show ?thesis
      by simp
  qed
  moreover have "addVersionHistory f t now s =
      writeConfig ((readConfig s)\<lparr>versionHistory :=
        Some (if int (length ?p) > ?m then slice_from (- ?m) ?p else ?p)\<rparr>) s"
    by (simp only: addVersionHistory_def Let_def pushed_history_def getVersionHistory_def)
  ultimately show ?thesis
    by (simp only: readConfig_writeConfig [OF assms(1)])
qed


lemma getLastUpdateCheck_emit: "getLastUpdateCheck (emit e s) = getLastUpdateCheck s"
  by (simp add: getLastUpdateCheck_def readConfig_emit)

lemma getLastUpdateCheck_addVersionHistory:
  assumes "writable s"
  shows "getLastUpdateCheck (addVersionHistory f t now s) = getLastUpdateCheck s"
  using assms
  by (simp add: addVersionHistory_def Let_def readConfig_writeConfig getLastUpdateCheck_def)

lemma gate_open_old_check:
  assumes "\<not> isWithinCooldown u now s" and "getLastUpdateCheck s = Some l"
    and "0 \<le> updateCooldown u" and "0 \<le> now"
  shows "l \<le> now"
  using assms by (auto simp: isWithinCooldown_def split: if_splits)

lemma writable_addVersionHistory: "writable (addVersionHistory f t now s) = writable s"
  by (simp add: addVersionHistory_def Let_def writable_writeConfig)

lemma getVersionHistory_emit: "getVersionHistory (emit e s) = getVersionHistory s"
  by (simp add: getVersionHistory_def readConfig_emit)

lemma getVersionHistory_setLastUpdateCheck:
  "writable s \<Longrightarrow> getVersionHistory (setLastUpdateCheck t s) = getVersionHistory s"
  by (simp add: getVersionHistory_def readConfig_setLastUpdateCheck history_or_empty_def)


lemma getVersionHistory_addVersionHistory:
  assumes "writable s" and "0 \<le> maxHistory (readConfig s)"
  shows "getVersionHistory (addVersionHistory f t now s) =
           drop (length (pushed_history f t now s) - nat (maxHistory (readConfig s)))
             (pushed_history f t now s)"
  by (simp add: getVersionHistory_def readConfig_addVersionHistory [OF assms] history_or_empty_def)



lemma maxHistory_addVersionHistory:
  assumes "writable s" and "0 \<le> maxHistory (readConfig s)"
  shows "maxHistory (readConfig (addVersionHistory f t now s)) = maxHistory (readConfig s)"
  by (simp add: readConfig_addVersionHistory [OF assms] maxHistory_def)

subsection \<open>Failed checks\<close>



subsection \<open>The steps of a check\<close>

lemma checkForUpdate_open:
  assumes "\<not> isWithinCooldown u (clock_gate w) s" and "registry w = Resolved lv"
  shows "checkForUpdate u w s =
           checkResolved w (version_of (version_exec w)) lv
             (emit (HttpsGet (registry_url u)) (emit (ExecSync (version_command u)) s))"
  using assms by (simp add: checkForUpdate_def getCurrentVersion_def getLatestVersion_def)

lemma checkResolved_compared:
  assumes "semver_lt cur latest = Some b"
  shows "checkResolved w (Some cur) (Some latest) s =
           (b, if b then addVersionHistory cur latest (clock_entry w)
                         (setLastUpdateCheck (clock_stamp w) s)
               else setLastUpdateCheck (clock_stamp w) s)"
  using assms by (simp add: checkResolved_def)

lemma checkResolved_absent: "checkResolved w None lv s = (True, s)"
  by (simp add: checkResolved_def)




subsection \<open>The ordering of versions\<close>





subsection \<open>The concrete inputs, read back\<close>

lemma ex_updater_constructed:
  "fst (new_Updater ''@google/gemini-cli'' ''gemini'' s) = ex_updater"
  by (simp add: new_Updater_def ex_updater_def)

lemma ex_sys_last: "getLastUpdateCheck (ex_sys l h st) = l"
  by (simp add: getLastUpdateCheck_def readConfig_def spread_def spread_key_def ex_sys_def)


lemma ex_sys_history: "getVersionHistory (ex_sys l h st) = h"
  by (simp add: getVersionHistory_def history_or_empty_def readConfig_def spread_def
      spread_key_def ex_sys_def)

lemma ex_sys_writable: "writable (ex_sys l h st)"
  by (simp add: ex_sys_def)

lemma ex_gate_open:
  "\<not> isWithinCooldown ex_updater (clock_gate (ex_world 1700003600000 r q))
       (ex_sys (Some 1700000000000) h st)"
  by (simp add: isWithinCooldown_def ex_sys_last ex_world_def ex_updater_def)

lemma ex_gate_open_null:
  "\<not> isWithinCooldown ex_updater (clock_gate (ex_world now r q)) (ex_sys None h st)"
  by (simp add: isWithinCooldown_def ex_sys_last)

lemma ex_current:
  "fst (getCurrentVersion ex_updater (version_exec (ex_world now (ExecOutput ''0.1.5'') q)) s)
     = Some ''0.1.5''"
  by (simp add: getCurrentVersion_def version_of_def ex_world_def match_here_def digit_def)

lemma ex_registry: "registry (ex_world now r q) = q"
  by (simp add: ex_world_def)

lemma ex_lt: "semver_lt ''0.1.5'' ''0.1.9'' = Some True"
  by code_simp


lemma ex_sys_maxHistory:
  "maxHistory (readConfig (ex_sys l h st)) = num_or (maxVersionHistory st) 10"
  by (simp add: maxHistory_def readConfig_def spread_def spread_key_def ex_sys_def)



subsection \<open>The cooldown gate\<close>




subsection \<open>Stamping the time of the check\<close>

text \<open>
  Claim C2, as amended. A check that gets past the cooldown gate with a current
  version found, a latest version resolved and the two compared without a \<^verbatim>\<open>TypeError\<close>
  returns the outcome of the comparison and, on a writable config file, leaves
  \<^verbatim>\<open>lastUpdateCheck\<close> at the clock reading of the stamp, whether an update is needed or not.
  With a cooldown that is not negative and a clock that does not run backwards from
  the gate to the stamp (nor before the epoch), the new value is not below the old one.
\<close>

theorem checkForUpdate_stamps_last_check:
  assumes "writable s" and "\<not> isWithinCooldown u (clock_gate w) s"
    and "fst (getCurrentVersion u (version_exec w) s) = Some cur"
    and "registry w = Resolved (Some latest)"
    and "semver_lt cur latest = Some b"
  shows "fst (checkForUpdate u w s) = b
       \<and> getLastUpdateCheck (snd (checkForUpdate u w s)) = Some (clock_stamp w)
       \<and> (0 \<le> updateCooldown u \<and> 0 \<le> clock_gate w \<and> clock_gate w \<le> clock_stamp w
            \<longrightarrow> (\<forall>l. getLastUpdateCheck s = Some l \<longrightarrow> l \<le> clock_stamp w))"
proof -
  let ?s2 = "emit (HttpsGet (registry_url u)) (emit (ExecSync (version_command u)) s)"
  let ?s3 = "setLastUpdateCheck (clock_stamp w) ?s2"
  have cur: "version_of (version_exec w) = Some cur"
    using assms(3) by (simp add: getCurrentVersion_def)
  have run: "checkForUpdate u w s =
      (b, if b then addVersionHistory cur latest (clock_entry w) ?s3 else ?s3)"
    by (simp add: checkForUpdate_open [OF assms(2,4)] cur checkResolved_compared [OF assms(5)])
  have w2: "writable ?s2"
    using assms(1) by (simp add: writable_emit)
  have stamped: "getLastUpdateCheck ?s3 = Some (clock_stamp w)"
    using w2 by (rule getLastUpdateCheck_setLastUpdateCheck)
  have w3: "writable ?s3"
    using w2 by (simp add: writable_setLastUpdateCheck)
  have "getLastUpdateCheck (snd (checkForUpdate u w s)) = Some (clock_stamp w)"
    using run stamped w3 by (simp add: getLastUpdateCheck_addVersionHistory)
  moreover have "\<forall>l. getLastUpdateCheck s = Some l \<longrightarrow> l \<le> clock_stamp w"
    if "0 \<le> updateCooldown u" and "0 \<le> clock_gate w" and "clock_gate w \<le> clock_stamp w"
    using gate_open_old_check [OF assms(2) _ that(1,2)] that(3) by fastforce
  ultimately show ?thesis
    using run by simp
qed


theorem checkForUpdate_stamps_last_check_witness:
  "writable (ex_sys (Some 1700000000000) [] defaultSettings)
   \<and> \<not> isWithinCooldown ex_updater
         (clock_gate (ex_world 1700003600000 (ExecOutput ''0.1.5'') (Resolved (Some ''0.1.9''))))
         (ex_sys (Some 1700000000000) [] defaultSettings)
   \<and> semver_lt ''0.1.5'' ''0.1.9'' = Some True
   \<and> fst (checkForUpdate ex_updater
          (ex_world 1700003600000 (ExecOutput ''0.1.5'') (Resolved (Some ''0.1.9'')))
          (ex_sys (Some 1700000000000) [] defaultSettings)) = True
   \<and> getLastUpdateCheck (snd (checkForUpdate ex_updater
          (ex_world 1700003600000 (ExecOutput ''0.1.5'') (Resolved (Some ''0.1.9'')))
          (ex_sys (Some 1700000000000) [] defaultSettings))) = Some 1700003600800
   \<and> getLastUpdateCheck (ex_sys (Some 1700000000000) [] defaultSettings) = Some 1700000000000
   \<and> (1700000000000 :: int)
        \<le> clock_stamp (ex_world 1700003600000 (ExecOutput ''0.1.5'') (Resolved (Some ''0.1.9'')))"
proof -
  let ?w = "ex_world 1700003600000 (ExecOutput ''0.1.5'') (Resolved (Some ''0.1.9''))"
  let ?s = "ex_sys (Some 1700000000000) [] defaultSettings"
  note inst = checkForUpdate_stamps_last_check
    [OF ex_sys_writable ex_gate_open ex_current ex_registry ex_lt, of "[]" defaultSettings]
  have clock: "0 \<le> updateCooldown ex_updater \<and> 0 \<le> clock_gate ?w \<and> clock_gate ?w \<le> clock_stamp ?w"
    by (simp add: ex_updater_def ex_world_def)
  have stamp: "clock_stamp ?w = 1700003600800"
    by (simp add: ex_world_def)
  have old: "getLastUpdateCheck ?s = Some 1700000000000"
    by (simp add: ex_sys_last)
  from inst clock old have "(1700000000000 :: int) \<le> clock_stamp ?w"
    by blast
  with inst stamp old show ?thesis
    using ex_sys_writable ex_gate_open ex_lt by simp
qed

text \<open>
  Claim C2 as it is written fails where the current version is absent: line 255 returns
  \<^verbatim>\<open>true\<close> before line 261 stamps, so the file is not written and \<^verbatim>\<open>lastUpdateCheck\<close> stays
  \<^verbatim>\<open>null\<close>. Nor is it enough that both versions resolve: a tool that prints a dated
  version such as \<^verbatim>\<open>2024.01.15\<close> resolves to a string that is no semantic version, the
  comparison throws, and the check returns \<^verbatim>\<open>false\<close> without a stamp.
\<close>

theorem checkForUpdate_stamp_counterexample:
  "(\<not> isWithinCooldown ex_updater
         (clock_gate (ex_world 1700003600000 ExecFailed (Resolved (Some ''0.1.9''))))
         (ex_sys None [] defaultSettings)
    \<and> checkForUpdate ex_updater (ex_world 1700003600000 ExecFailed (Resolved (Some ''0.1.9'')))
          (ex_sys None [] defaultSettings)
        = (True, (ex_sys None [] defaultSettings)\<lparr>trace :=
             [ExecSync ''gemini --version'',
              HttpsGet ''https://registry.npmjs.org/@google/gemini-cli/latest'']\<rparr>)
    \<and> getLastUpdateCheck (snd (checkForUpdate ex_updater
          (ex_world 1700003600000 ExecFailed (Resolved (Some ''0.1.9'')))
          (ex_sys None [] defaultSettings))) = None)
   \<and> (fst (getCurrentVersion ex_updater
          (version_exec (ex_world 1700003600000 (ExecOutput ''build 2024.01.15'') (Resolved (Some ''0.1.9''))))
          (ex_sys None [] defaultSettings)) = Some ''2024.01.15''
      \<and> fst (checkForUpdate ex_updater
          (ex_world 1700003600000 (ExecOutput ''build 2024.01.15'') (Resolved (Some ''0.1.9'')))
          (ex_sys None [] defaultSettings)) = False
      \<and> getLastUpdateCheck (snd (checkForUpdate ex_updater
          (ex_world 1700003600000 (ExecOutput ''build 2024.01.15'') (Resolved (Some ''0.1.9'')))
          (ex_sys None [] defaultSettings))) = None)"
proof -
  let ?s = "ex_sys None [] defaultSettings"
  let ?w = "ex_world 1700003600000 ExecFailed (Resolved (Some ''0.1.9''))"
  let ?w' = "ex_world 1700003600000 (ExecOutput ''build 2024.01.15'') (Resolved (Some ''0.1.9''))"
  have absent: "version_of (version_exec ?w) = None"
    by (simp add: version_of_def ex_world_def)
  have run: "checkForUpdate ex_updater ?w ?s
        = (True, ?s\<lparr>trace := [ExecSync ''gemini --version'',
              HttpsGet ''https://registry.npmjs.org/@google/gemini-cli/latest'']\<rparr>)"
    unfolding checkForUpdate_open [OF ex_gate_open_null ex_registry] absent checkResolved_absent
    by (simp add: emit_def version_command_def registry_url_def ex_updater_def ex_sys_def)
  have dated: "version_of (version_exec ?w') = Some ''2024.01.15''"
    by (simp add: version_of_def ex_world_def match_here_def digit_def)
  have bad: "semver_lt ''2024.01.15'' ''0.1.9'' = None"
    by code_simp
  have run': "checkForUpdate ex_updater ?w' ?s
        = (False, emit (HttpsGet (registry_url ex_updater))
                    (emit (ExecSync (version_command ex_updater)) ?s))"
    unfolding checkForUpdate_open [OF ex_gate_open_null ex_registry] dated
    by (simp add: checkResolved_def bad)
  show ?thesis
    using ex_gate_open_null [of 1700003600000 ExecFailed "Resolved (Some ''0.1.9'')" "[]" defaultSettings]
      dated
    by (simp add: run run' getLastUpdateCheck_emit ex_sys_last getCurrentVersion_def)
      (simp add: getLastUpdateCheck_def readConfig_def ex_sys_def spread_def spread_key_def)
qed

subsection \<open>The history entry and the install\<close>




subsection \<open>The decision\<close>



subsection \<open>Forcing an update\<close>



subsection \<open>The cap on the version history\<close>

text \<open>
  Claim C4, as amended. \<^verbatim>\<open>addVersionHistory\<close> on a writable config file, with a cap that is
  not negative (the cap is \<^verbatim>\<open>settings.maxVersionHistory\<close>, or 10 when that is absent or 0),
  stores the pushed history cut down to its last cap entries: the oldest entries go
  first, and the stored length is at most the cap, which the write leaves as it was.
\<close>

theorem addVersionHistory_capped:
  assumes "writable s" and "0 \<le> maxHistory (readConfig s)"
  shows "getVersionHistory (addVersionHistory f t now s)
           = drop (length (pushed_history f t now s) - nat (maxHistory (readConfig s)))
               (pushed_history f t now s)
       \<and> int (length (getVersionHistory (addVersionHistory f t now s)))
           \<le> maxHistory (readConfig (addVersionHistory f t now s))
       \<and> maxHistory (readConfig (addVersionHistory f t now s)) = maxHistory (readConfig s)"
proof -
  have kept: "getVersionHistory (addVersionHistory f t now s)
      = drop (length (pushed_history f t now s) - nat (maxHistory (readConfig s)))
          (pushed_history f t now s)"
    using assms by (rule getVersionHistory_addVersionHistory)
  have "int (length (getVersionHistory (addVersionHistory f t now s))) \<le> maxHistory (readConfig s)"
    unfolding kept using assms(2) by simp
  then show ?thesis
    using kept maxHistory_addVersionHistory [OF assms] by simp
qed

theorem addVersionHistory_capped_witness:
  "writable (ex_sys None [ex_entry ''0.1.3'' ''0.1.4'', ex_entry ''0.1.4'' ''0.1.5'']
      (defaultSettings\<lparr>maxVersionHistory := Some 2\<rparr>))
   \<and> maxHistory (readConfig (ex_sys None [ex_entry ''0.1.3'' ''0.1.4'', ex_entry ''0.1.4'' ''0.1.5'']
        (defaultSettings\<lparr>maxVersionHistory := Some 2\<rparr>))) = 2
   \<and> getVersionHistory (addVersionHistory ''0.1.5'' ''0.1.9'' 1700003600801
        (ex_sys None [ex_entry ''0.1.3'' ''0.1.4'', ex_entry ''0.1.4'' ''0.1.5'']
          (defaultSettings\<lparr>maxVersionHistory := Some 2\<rparr>)))
       = [ex_entry ''0.1.4'' ''0.1.5'',
          \<lparr>from = ''0.1.5'', to = ''0.1.9'', timestamp = 1700003600801, success = True\<rparr>]"
proof -
  let ?s = "ex_sys None [ex_entry ''0.1.3'' ''0.1.4'', ex_entry ''0.1.4'' ''0.1.5'']
      (defaultSettings\<lparr>maxVersionHistory := Some 2\<rparr>)"
  have cap: "maxHistory (readConfig ?s) = 2"
    by (simp add: ex_sys_maxHistory num_or_def)
  then have nonneg: "0 \<le> maxHistory (readConfig ?s)"
    by simp
  show ?thesis
    using addVersionHistory_capped [OF ex_sys_writable nonneg, of "''0.1.5''" "''0.1.9''" 1700003600801]
    by (simp add: cap pushed_history_def ex_sys_history ex_sys_writable)
qed

text \<open>
  Claim C4 as it is written fails for the writers other than \<^verbatim>\<open>addVersionHistory\<close>, which
  store the history they are given: \<^verbatim>\<open>importConfig\<close> with eleven entries and no settings
  writes all eleven under the default cap of ten.
\<close>

theorem importConfig_history_counterexample:
  "fst (importConfig (Some \<lparr>st_lastUpdateCheck = None, st_lastUpdateTime = None,
           st_versionHistory = Some (Some (replicate 11 (ex_entry ''0.1.4'' ''0.1.5''))),
           st_settings = None\<rparr>)
        (ex_sys None [] defaultSettings))
   \<and> length (getVersionHistory (snd (importConfig (Some \<lparr>st_lastUpdateCheck = None,
           st_lastUpdateTime = None,
           st_versionHistory = Some (Some (replicate 11 (ex_entry ''0.1.4'' ''0.1.5''))),
           st_settings = None\<rparr>)
        (ex_sys None [] defaultSettings)))) = 11
   \<and> settings (readConfig (snd (importConfig (Some \<lparr>st_lastUpdateCheck = None,
           st_lastUpdateTime = None,
           st_versionHistory = Some (Some (replicate 11 (ex_entry ''0.1.4'' ''0.1.5''))),
           st_settings = None\<rparr>)
        (ex_sys None [] defaultSettings)))) = Some defaultSettings
   \<and> maxVersionHistory defaultSettings = Some 10
   \<and> \<not> (11::int) \<le> 10"
  by (simp add: importConfig_def getVersionHistory_def history_or_empty_def
      readConfig_writeConfig ex_sys_writable spread_def spread_key_def getDefaultConfig_def
      defaultSettings_def)

subsection \<open>Rollback\<close>

text \<open>
  Claim C5. With fewer than two history entries \<^verbatim>\<open>rollbackToPreviousVersion\<close> throws
  the "no previous version" error and does nothing else. With two or more it runs
  exactly one command, the install of the package pinned to the \<^verbatim>\<open>from\<close> field of the
  entry before the last, and returns \<^verbatim>\<open>true\<close> when that command succeeds (its failure is
  thrown on).
\<close>

theorem rollbackToPreviousVersion_target:
  "(length (getVersionHistory s) < 2
      \<longrightarrow> rollbackToPreviousVersion u w s = (Inl NoRollbackTarget, s))
   \<and> (2 \<le> length (getVersionHistory s)
      \<longrightarrow> trace (snd (rollbackToPreviousVersion u w s))
            = trace s @ [ExecSync (pinned_install_command u
                (from (getVersionHistory s ! (length (getVersionHistory s) - 2))))]
          \<and> fst (rollbackToPreviousVersion u w s)
            = (case rollback_exec w of ExecFailed \<Rightarrow> Inl CommandFailed
               | ExecOutput out \<Rightarrow> Inr True))"
  by (simp add: rollbackToPreviousVersion_def Let_def trace_emit split: exec_result.splits)

theorem rollbackToPreviousVersion_target_witness:
  "length (getVersionHistory (ex_sys None [ex_entry ''0.1.4'' ''0.1.5''] defaultSettings)) < 2
   \<and> rollbackToPreviousVersion ex_updater (ex_world 1700003600000 ExecFailed (Rejected FetchFailed))
        (ex_sys None [ex_entry ''0.1.4'' ''0.1.5''] defaultSettings)
       = (Inl NoRollbackTarget, ex_sys None [ex_entry ''0.1.4'' ''0.1.5''] defaultSettings)
   \<and> 2 \<le> length (getVersionHistory (ex_sys None
          [ex_entry ''0.1.3'' ''0.1.4'', ex_entry ''0.1.4'' ''0.1.5'', ex_entry ''0.1.5'' ''0.1.9'']
          defaultSettings))
   \<and> rollbackToPreviousVersion ex_updater (ex_world 1700003600000 ExecFailed (Rejected FetchFailed))
        (ex_sys None
          [ex_entry ''0.1.3'' ''0.1.4'', ex_entry ''0.1.4'' ''0.1.5'', ex_entry ''0.1.5'' ''0.1.9'']
          defaultSettings)
       = (Inr True, (ex_sys None
          [ex_entry ''0.1.3'' ''0.1.4'', ex_entry ''0.1.4'' ''0.1.5'', ex_entry ''0.1.5'' ''0.1.9'']
          defaultSettings)\<lparr>trace := [ExecSync ''npm install -g @google/gemini-cli@0.1.4'']\<rparr>)"
proof -
  let ?w = "ex_world 1700003600000 ExecFailed (Rejected FetchFailed)"
  let ?s1 = "ex_sys None [ex_entry ''0.1.4'' ''0.1.5''] defaultSettings"
  let ?s3 = "ex_sys None
      [ex_entry ''0.1.3'' ''0.1.4'', ex_entry ''0.1.4'' ''0.1.5'', ex_entry ''0.1.5'' ''0.1.9'']
      defaultSettings"
  have small: "length (getVersionHistory ?s1) < 2"
    by (simp add: ex_sys_history)
  have big: "2 \<le> length (getVersionHistory ?s3)"
    by (simp add: ex_sys_history)
  have ok: "rollback_exec ?w = ExecOutput ''changed 1 package''"
    by (simp add: ex_world_def)
  have target: "from (getVersionHistory ?s3 ! (length (getVersionHistory ?s3) - 2)) = ''0.1.4''"
    by (simp add: ex_sys_history ex_entry_def)
  have cmd: "pinned_install_command ex_updater ''0.1.4'' = ''npm install -g @google/gemini-cli@0.1.4''"
    by (simp add: pinned_install_command_def ex_updater_def)
  have fail: "rollbackToPreviousVersion ex_updater ?w ?s1 = (Inl NoRollbackTarget, ?s1)"
    using rollbackToPreviousVersion_target [of ?s1 ex_updater ?w] small by blast
  have "trace (snd (rollbackToPreviousVersion ex_updater ?w ?s3))
      = trace ?s3 @ [ExecSync ''npm install -g @google/gemini-cli@0.1.4'']
    \<and> fst (rollbackToPreviousVersion ex_updater ?w ?s3) = Inr True"
    using rollbackToPreviousVersion_target [of ?s3 ex_updater ?w] big
    by (simp add: ok target cmd)
  moreover have "config_file (snd (rollbackToPreviousVersion ex_updater ?w ?s3)) = config_file ?s3
      \<and> writable (snd (rollbackToPreviousVersion ex_updater ?w ?s3)) = writable ?s3"
    by (simp add: rollbackToPreviousVersion_def Let_def emit_def split: exec_result.splits)
  ultimately have "rollbackToPreviousVersion ex_updater ?w ?s3
      = (Inr True, ?s3\<lparr>trace := [ExecSync ''npm install -g @google/gemini-cli@0.1.4'']\<rparr>)"
    by (simp add: prod_eq_iff ex_sys_def)
  with small big fail show ?thesis
    by simp
qed

text \<open>
  Claim C10. \<^verbatim>\<open>rollbackToPreviousVersion\<close> leaves the config file as it was, whether it
  succeeds or fails: the file, and so the document read from it (history,
  \<^verbatim>\<open>lastUpdateCheck\<close>, \<^verbatim>\<open>lastUpdateTime\<close>), are unchanged, and it makes no attempt to write.
\<close>

theorem rollbackToPreviousVersion_config_unchanged:
  "config_file (snd (rollbackToPreviousVersion u w s)) = config_file s
   \<and> writable (snd (rollbackToPreviousVersion u w s)) = writable s
   \<and> readConfig (snd (rollbackToPreviousVersion u w s)) = readConfig s
   \<and> filter is_write (trace (snd (rollbackToPreviousVersion u w s))) = filter is_write (trace s)"
  by (simp add: rollbackToPreviousVersion_def Let_def emit_def readConfig_def
      split: exec_result.splits)

subsection \<open>Reading the config file\<close>

text \<open>
  Claim C9, as amended. \<^verbatim>\<open>readConfig\<close> always returns a document (the model has no
  exceptional result: every exception is caught). A missing or unparseable file gives
  the defaults; a stored document is returned with each missing top-level key filled in
  from the defaults. Reading writes nothing. The defaults are persisted by
  \<^verbatim>\<open>ensureConfigExists\<close>, and only when the file is missing (and can be written): a file
  that is there is left as it is.
\<close>

theorem readConfig_defaults_no_write:
  "(config_file s = Missing \<or> config_file s = Unparseable \<longrightarrow> readConfig s = getDefaultConfig)
   \<and> (config_file s = Stored p \<longrightarrow>
        readConfig s =
          \<lparr>lastUpdateCheck = (case st_lastUpdateCheck p of None \<Rightarrow> None | Some v \<Rightarrow> v),
           lastUpdateTime = (case st_lastUpdateTime p of None \<Rightarrow> None | Some v \<Rightarrow> v),
           versionHistory = (case st_versionHistory p of None \<Rightarrow> Some [] | Some v \<Rightarrow> v),
           settings = (case st_settings p of None \<Rightarrow> Some defaultSettings | Some v \<Rightarrow> v)\<rparr>)
   \<and> (config_file s \<noteq> Missing \<longrightarrow> ensureConfigExists s = s)
   \<and> (config_file s = Missing \<and> writable s \<longrightarrow>
        config_file (ensureConfigExists s) = Stored (stringify getDefaultConfig)
        \<and> readConfig (ensureConfigExists s) = getDefaultConfig)"
proof -
  have absent: "readConfig s = getDefaultConfig"
    if "config_file s = Missing \<or> config_file s = Unparseable"
    using that by (auto simp: readConfig_def)
  have present: "readConfig s =
          \<lparr>lastUpdateCheck = (case st_lastUpdateCheck p of None \<Rightarrow> None | Some v \<Rightarrow> v),
           lastUpdateTime = (case st_lastUpdateTime p of None \<Rightarrow> None | Some v \<Rightarrow> v),
           versionHistory = (case st_versionHistory p of None \<Rightarrow> Some [] | Some v \<Rightarrow> v),
           settings = (case st_settings p of None \<Rightarrow> Some defaultSettings | Some v \<Rightarrow> v)\<rparr>"
    if "config_file s = Stored p"
    using that by (simp add: readConfig_def spread_def spread_key_def getDefaultConfig_def)
  have kept: "ensureConfigExists s = s" if "config_file s \<noteq> Missing"
    using that by (simp add: ensureConfigExists_def)
  have created: "config_file (ensureConfigExists s) = Stored (stringify getDefaultConfig)
      \<and> readConfig (ensureConfigExists s) = getDefaultConfig"
    if "config_file s = Missing \<and> writable s"
    using that by (simp add: ensureConfigExists_def config_file_writeConfig readConfig_writeConfig)
  from absent present kept created show ?thesis
    by blast
qed

theorem readConfig_defaults_no_write_witness:
  "config_file broken_sys = Unparseable
   \<and> readConfig broken_sys = getDefaultConfig
   \<and> ensureConfigExists broken_sys = broken_sys
   \<and> config_file fresh_sys = Missing \<and> writable fresh_sys
   \<and> readConfig fresh_sys = getDefaultConfig
   \<and> config_file (ensureConfigExists fresh_sys) = Stored (stringify getDefaultConfig)
   \<and> config_file (ex_sys (Some 1700000000000) [] defaultSettings)
       = Stored \<lparr>st_lastUpdateCheck = Some (Some 1700000000000), st_lastUpdateTime = Some None,
                 st_versionHistory = Some (Some []), st_settings = Some (Some defaultSettings)\<rparr>
   \<and> readConfig (ex_sys (Some 1700000000000) [] defaultSettings)
       = \<lparr>lastUpdateCheck = Some 1700000000000, lastUpdateTime = None,
          versionHistory = Some [], settings = Some defaultSettings\<rparr>"
proof -
  have b: "config_file broken_sys = Unparseable"
    by (simp add: broken_sys_def)
  have f: "config_file fresh_sys = Missing \<and> writable fresh_sys"
    by (simp add: fresh_sys_def)
  have e: "config_file (ex_sys (Some 1700000000000) [] defaultSettings)
       = Stored \<lparr>st_lastUpdateCheck = Some (Some 1700000000000), st_lastUpdateTime = Some None,
                 st_versionHistory = Some (Some []), st_settings = Some (Some defaultSettings)\<rparr>"
    by (simp add: ex_sys_def)
  show ?thesis
    using readConfig_defaults_no_write [of broken_sys "stringify getDefaultConfig"]
      readConfig_defaults_no_write [of fresh_sys "stringify getDefaultConfig"]
      readConfig_defaults_no_write [of "ex_sys (Some 1700000000000) [] defaultSettings"
        "\<lparr>st_lastUpdateCheck = Some (Some 1700000000000), st_lastUpdateTime = Some None,
          st_versionHistory = Some (Some []), st_settings = Some (Some defaultSettings)\<rparr>"] b f e
    by simp
qed

text \<open>
  Claim C9 as it is written fails on an unparseable file: constructing the updater
  (which runs \<^verbatim>\<open>ensureConfigExists\<close>) and reading return the defaults, but the file exists,
  so nothing is written and it stays unparseable.
\<close>

theorem readConfig_persist_counterexample:
  "readConfig (snd (new_Updater ''@google/gemini-cli'' ''gemini'' broken_sys)) = getDefaultConfig
   \<and> snd (new_Updater ''@google/gemini-cli'' ''gemini'' broken_sys) = broken_sys
   \<and> config_file broken_sys = Unparseable
   \<and> trace broken_sys = []"
  by (simp add: new_Updater_def ensureConfigExists_def readConfig_def broken_sys_def)

end
